theory Spec2Isabelle
  imports Complex_Main "HOL-Library.AList"
begin

section \<open>The MCP client of nerve: \<^verbatim>\<open>src/nerve/tools/mcp/client.py\<close>\<close>

text \<open>
  The class \<^verbatim>\<open>Client\<close> wraps one Model Context Protocol server: its constructor
  resolves blank environment variables, \<^verbatim>\<open>connect\<close> opens a transport and a session,
  \<^verbatim>\<open>tools\<close> caches the tool list and \<^verbatim>\<open>call_tool\<close> invokes a tool and normalises
  the answer.

  The embedding is sequential (the source awaits every call before the next statement).
  Python objects that are shared and mutated (the server configuration handed to the
  constructor) live in a store indexed by addresses; the client object itself is passed
  and returned. Every raise and every \<^verbatim>\<open>exit\<close> of the source is a value of \<open>error\<close>.
  The libraries the client calls (the \<^verbatim>\<open>mcp\<close> package, \<^verbatim>\<open>os.getenv\<close>) are parameters,
  collected in the record \<open>externals\<close>; each of them sees the trace of the calls made so
  far, so that a theorem about all \<open>externals\<close> covers servers that answer differently
  from one call to the next. Calls of \<^verbatim>\<open>logger.debug\<close> are left out: they change
  neither the control flow nor any object.
\<close>

subsection \<open>Data\<close>

text \<open>Values that \<^verbatim>\<open>call_tool\<close> returns: Python strings, dictionaries and lists.\<close>

datatype pyval =
    PStr string
  | PDict "(string \<times> pyval) list"
  | PList "pyval list"

text \<open>
  The exceptions of the source: \<^verbatim>\<open>exit(n)\<close> raises \<open>SystemExit n\<close>; \<open>TimeoutError\<close> is
  \<^verbatim>\<open>asyncio.TimeoutError\<close>; \<open>Exception msg\<close> is any other instance of \<^verbatim>\<open>Exception\<close>,
  with its message. \<open>SystemExit\<close> is not an instance of \<^verbatim>\<open>Exception\<close>, the other two
  are.
\<close>

datatype error =
    SystemExit int
  | TimeoutError
  | Exception string

fun is_Exception :: "error \<Rightarrow> bool" where
  "is_Exception (SystemExit n) = False"
| "is_Exception TimeoutError = True"
| "is_Exception (Exception msg) = True"

text \<open>
  The elements of a tool result (\<^verbatim>\<open>mcp.types\<close>): \<open>TextContent text\<close>,
  \<open>ImageContent data mimeType\<close>, \<open>EmbeddedResource resource\<close>. \<open>OtherContent\<close> stands
  for an element of any class other than the three the source tests with
  \<^verbatim>\<open>isinstance\<close>.
\<close>

datatype content =
    TextContent string
  | ImageContent string string
  | EmbeddedResource string
  | OtherContent string

record CallToolResult =
  isError :: bool
  content :: "content list"

datatype Tool = Tool string string

type_synonym stream = nat
type_synonym seconds = real
type_synonym addr = nat

text \<open>A Python \<^verbatim>\<open>dict\<close> with string keys, in insertion order; its keys are distinct.\<close>

type_synonym 'v dict = "(string \<times> 'v) list"

text \<open>
  Modelled from the spec: the class \<^verbatim>\<open>Configuration.MCPServer\<close> of \<^verbatim>\<open>nerve.models\<close> is not
  among the sources; its fields are the ones section 3 of the specification lists and
  the client reads. \<open>url\<close> may be \<^verbatim>\<open>None\<close>.
\<close>

record MCPServer =
  session_timeout :: seconds
  command :: string
  args :: "string list"
  env :: "string dict"
  url :: "string option"
  headers :: "string dict"
  timeout :: seconds
  sse_read_timeout :: seconds

text \<open>\<^verbatim>\<open>mcp.StdioServerParameters(command, args, env)\<close>: a value built once from the fields.\<close>

record StdioServerParameters =
  sp_command :: string
  sp_args :: "string list"
  sp_env :: "string dict"

text \<open>\<^verbatim>\<open>ClientSession(read_stream, write_stream)\<close>\<close>

datatype ClientSession = ClientSession stream stream

text \<open>What the client does to the outside, in the order in which it does it.\<close>

datatype event =
    Log_error string "string list"
  | Stdio_client StdioServerParameters
  | Sse_client string "string dict" seconds seconds
  | Session_enter ClientSession
  | Session_initialize ClientSession seconds
  | Session_list_tools ClientSession
  | Session_call_tool ClientSession string "pyval dict"

text \<open>
  The world: the store of the \<^verbatim>\<open>MCPServer\<close> objects and the trace of events so far.
\<close>

record world =
  configs :: "addr \<Rightarrow> MCPServer"
  trace :: "event list"

text \<open>
  The libraries. \<open>getenv\<close> is \<^verbatim>\<open>os.getenv\<close>; \<open>stdio_client\<close> and \<open>sse_client\<close> enter
  the transport's context and give the two streams or raise; \<open>session_enter\<close> enters the
  context of a \<^verbatim>\<open>ClientSession\<close>; \<open>session_initialize\<close> is
  \<^verbatim>\<open>asyncio.wait_for(session.initialize(), timeout)\<close>, which raises \<open>TimeoutError\<close> when
  the deadline passes first; \<open>str_of_result\<close> is \<^verbatim>\<open>str\<close> on a \<^verbatim>\<open>CallToolResult\<close>.
\<close>

record externals =
  getenv :: "string \<Rightarrow> string option"
  stdio_client :: "event list \<Rightarrow> StdioServerParameters \<Rightarrow> error + (stream \<times> stream)"
  sse_client :: "event list \<Rightarrow> string \<Rightarrow> string dict \<Rightarrow> seconds \<Rightarrow> seconds
                   \<Rightarrow> error + (stream \<times> stream)"
  session_enter :: "event list \<Rightarrow> ClientSession \<Rightarrow> error + unit"
  session_initialize :: "event list \<Rightarrow> ClientSession \<Rightarrow> seconds \<Rightarrow> error + unit"
  session_list_tools :: "event list \<Rightarrow> ClientSession \<Rightarrow> error + Tool list"
  session_call_tool :: "event list \<Rightarrow> ClientSession \<Rightarrow> string \<Rightarrow> pyval dict
                          \<Rightarrow> error + CallToolResult"
  str_of_result :: "CallToolResult \<Rightarrow> string"

text \<open>
  The attributes of a \<^verbatim>\<open>Client\<close>. \<open>server\<close> is a reference to the caller's
  configuration object. The prefix \<open>u_\<close> stands for the leading underscore of the
  source's private attributes; \<open>u_read_stream\<close> and \<open>u_write_stream\<close> are \<open>None\<close> until
  \<^verbatim>\<open>connect\<close> assigns them.
\<close>

record client =
  name :: string
  server :: addr
  server_params :: StdioServerParameters
  u_session :: "ClientSession option"
  u_tools :: "Tool list"
  u_read_stream :: "stream option"
  u_write_stream :: "stream option"

definition emit :: "event \<Rightarrow> world \<Rightarrow> world" where
  "emit e w = w\<lparr>trace := trace w @ [e]\<rparr>"

subsection \<open>The constructor\<close>

text \<open>\<^verbatim>\<open>server.env[key] = v\<close> on the configuration object at address \<open>a\<close>.\<close>

definition set_env_item :: "addr \<Rightarrow> string \<Rightarrow> string \<Rightarrow> world \<Rightarrow> world" where
  "set_env_item a key v w =
     w\<lparr>configs := (configs w)(a := (configs w a)\<lparr>env := AList.update key v (env (configs w a))\<rparr>)\<rparr>"

text \<open>
  Lines 19 to 28, the loop over \<^verbatim>\<open>server.env.items()\<close>. The dictionary keeps its keys
  while the loop runs (the only assignment is to the key being visited), so the loop
  visits the keys it had at the start, in order; the value of each is read from the
  dictionary as it is at that moment. A missing key would raise \<^verbatim>\<open>KeyError\<close>. The
  name logged is the class attribute \<^verbatim>\<open>name = ""\<close>: \<^verbatim>\<open>self.name\<close> is assigned after the
  loop.
\<close>

fun init_env_loop :: "externals \<Rightarrow> addr \<Rightarrow> string list \<Rightarrow> world \<Rightarrow> world \<times> (error + unit)" where
  "init_env_loop X a [] w = (w, Inr ())"
| "init_env_loop X a (key # keys) w =
     (case map_of (env (configs w a)) key of
        None \<Rightarrow> (w, Inl (Exception ''KeyError''))
      | Some val \<Rightarrow>
          let w1 = (if val = '''' then
                      (case getenv X key of
                         None \<Rightarrow> w
                       | Some env_val \<Rightarrow>
                           if env_val \<noteq> '''' then set_env_item a key env_val w else w)
                    else w)
          in (case map_of (env (configs w1 a)) key of
                None \<Rightarrow> (w1, Inl (Exception ''KeyError''))
              | Some v \<Rightarrow>
                  if v = '''' then
                    (emit (Log_error ''mcp server {} environment variable {} is not set''
                             ['''', key]) w1,
                     Inl (SystemExit 1))
                  else init_env_loop X a keys w1))"

text \<open>\<^verbatim>\<open>Client.__init__(self, name, server)\<close>, lines 18 to 35.\<close>

definition Client_init :: "externals \<Rightarrow> world \<Rightarrow> string \<Rightarrow> addr \<Rightarrow> world \<times> (error + client)" where
  "Client_init X w nm a =
     (case init_env_loop X a (map fst (env (configs w a))) w of
        (w1, Inl e) \<Rightarrow> (w1, Inl e)
      | (w1, Inr u) \<Rightarrow>
          (w1, Inr \<lparr>name = nm, server = a,
                    server_params = \<lparr>sp_command = command (configs w1 a),
                                     sp_args = args (configs w1 a),
                                     sp_env = env (configs w1 a)\<rparr>,
                    u_session = None, u_tools = [],
                    u_read_stream = None, u_write_stream = None\<rparr>))"

subsection \<open>Transports\<close>

text \<open>Python's truth value of a string that may be \<^verbatim>\<open>None\<close>.\<close>

fun truthy :: "string option \<Rightarrow> bool" where
  "truthy None = False"
| "truthy (Some u) = (u \<noteq> '''')"

text \<open>
  \<^verbatim>\<open>_create_stdio_streams\<close>, lines 37 to 52, up to the \<^verbatim>\<open>yield\<close>: an \<^verbatim>\<open>Exception\<close> raised
  while the transport opens is caught and the process exits with status 0. The handler
  around the \<^verbatim>\<open>yield\<close> only runs when the exit stack unwinds, which this class never
  asks for.
\<close>

definition create_stdio_streams ::
  "externals \<Rightarrow> world \<Rightarrow> client \<Rightarrow> world \<times> (error + (stream \<times> stream))" where
  "create_stdio_streams X w s =
     (let w1 = emit (Stdio_client (server_params s)) w in
      case stdio_client X (trace w) (server_params s) of
        Inl e \<Rightarrow> (w1, Inl (if is_Exception e then SystemExit 0 else e))
      | Inr rw \<Rightarrow> (w1, Inr rw))"

text \<open>\<^verbatim>\<open>_create_sse_streams\<close>, lines 54 to 74, up to the \<^verbatim>\<open>yield\<close>.\<close>

definition create_sse_streams ::
  "externals \<Rightarrow> world \<Rightarrow> client \<Rightarrow> world \<times> (error + (stream \<times> stream))" where
  "create_sse_streams X w s =
     (let cfg = configs w (server s);
          u = (if truthy (url cfg) then (case url cfg of Some v \<Rightarrow> v | None \<Rightarrow> '''')
               else ''http://localhost:8080'');
          w1 = emit (Sse_client u (headers cfg) (timeout cfg) (sse_read_timeout cfg)) w in
      case sse_client X (trace w) u (headers cfg) (timeout cfg) (sse_read_timeout cfg) of
        Inl e \<Rightarrow> (w1, Inl (if is_Exception e then SystemExit 0 else e))
      | Inr rw \<Rightarrow> (w1, Inr rw))"

subsection \<open>\<^verbatim>\<open>connect\<close> and \<^verbatim>\<open>tools\<close>\<close>

text \<open>
  \<^verbatim>\<open>connect\<close> (lines 76 to 112) calls \<^verbatim>\<open>tools\<close> and \<^verbatim>\<open>tools\<close> (lines 114 to 129) calls
  \<^verbatim>\<open>connect\<close>. The recursion ends: \<^verbatim>\<open>tools\<close> calls \<^verbatim>\<open>connect\<close> only without a session,
  and \<^verbatim>\<open>connect\<close> calls \<^verbatim>\<open>tools\<close> only after it has assigned one. Each function returns
  the world, the client object and the result or the exception.
\<close>

function connect :: "externals \<Rightarrow> world \<Rightarrow> client \<Rightarrow> world \<times> client \<times> (error + unit)"
  and tools :: "externals \<Rightarrow> world \<Rightarrow> client \<Rightarrow> world \<times> client \<times> (error + Tool list)" where
  "connect X w s =
     (if u_session s \<noteq> None then (w, s, Inr ())
      else
        (case (if truthy (url (configs w (server s))) then create_sse_streams X w s
               else create_stdio_streams X w s) of
           (w1, Inl e) \<Rightarrow> (w1, s, Inl e)
         | (w1, Inr (r, wr)) \<Rightarrow>
             (let s1 = s\<lparr>u_read_stream := Some r, u_write_stream := Some wr\<rparr>;
                  sess = ClientSession r wr;
                  w2 = emit (Session_enter sess) w1 in
              case session_enter X (trace w1) sess of
                Inl e \<Rightarrow> (w2, s1, Inl e)
              | Inr u \<Rightarrow>
                  (let s2 = s1\<lparr>u_session := Some sess\<rparr>;
                       t = session_timeout (configs w2 (server s2));
                       w3 = emit (Session_initialize sess t) w2 in
                   case session_initialize X (trace w2) sess t of
                     Inl e \<Rightarrow>
                       if e = TimeoutError then
                         (emit (Log_error ''mcp server {} initialization timeout'' [name s2]) w3,
                          s2, Inl (SystemExit 1))
                       else (w3, s2, Inl e)
                   | Inr u \<Rightarrow>
                       (case tools X w3 s2 of
                          (w4, s3, Inl e) \<Rightarrow> (w4, s3, Inl e)
                        | (w4, s3, Inr ts) \<Rightarrow> (w4, s3\<lparr>u_tools := ts\<rparr>, Inr ()))))))"
| "tools X w s =
     (case (if u_session s = None then
              (case connect X w s of
                 (w1, s1, Inl e) \<Rightarrow> (w1, s1, Inl e)
               | (w1, s1, Inr u) \<Rightarrow>
                   if u_session s1 = None
                   then (w1, s1, Inl (Exception ''failed to connect to MCP server''))
                   else (w1, s1, Inr ()))
            else (w, s, Inr ())) of
        (w1, s1, Inl e) \<Rightarrow> (w1, s1, Inl e)
      | (w1, s1, Inr u) \<Rightarrow>
          if u_tools s1 \<noteq> [] then (w1, s1, Inr (u_tools s1))
          else
            (case u_session s1 of
               None \<Rightarrow> (w1, s1, Inl (Exception ''AttributeError''))
             | Some sess \<Rightarrow>
                 (let w2 = emit (Session_list_tools sess) w1 in
                  case session_list_tools X (trace w1) sess of
                    Inl e \<Rightarrow> (w2, s1, Inl e)
                  | Inr ts \<Rightarrow> (w2, s1\<lparr>u_tools := ts\<rparr>, Inr ts))))"
  by pat_completeness auto
termination
  by (relation "measure (\<lambda>x. case x of
         Inl (X, w, s) \<Rightarrow> (if u_session s = None then 1 else 0)
       | Inr (X, w, s) \<Rightarrow> (if u_session s = None then 2 else 0))") auto

declare connect.simps [simp del] tools.simps [simp del]

subsection \<open>\<^verbatim>\<open>call_tool\<close>\<close>

text \<open>
  The loop of lines 144 to 156 over \<^verbatim>\<open>ret.content\<close>, with the list \<^verbatim>\<open>responses\<close> built
  so far. The \<^verbatim>\<open>isinstance\<close> chain has no \<^verbatim>\<open>else\<close>: an element of another class
  leaves \<^verbatim>\<open>responses\<close> as it is.
\<close>

fun collect_responses :: "content list \<Rightarrow> pyval list \<Rightarrow> error + pyval list" where
  "collect_responses [] responses = Inr responses"
| "collect_responses (TextContent t # elems) responses =
     collect_responses elems (responses @ [PStr t])"
| "collect_responses (ImageContent d m # elems) responses =
     collect_responses elems
       (responses @
        [PDict [(''type'', PStr ''image_url''),
                (''image_url'', PDict [(''url'', PStr (''data:'' @ m @ '';base64,'' @ d))])]])"
| "collect_responses (EmbeddedResource r # elems) responses =
     Inl (Exception ''EmbeddedResource not supported yet'')"
| "collect_responses (OtherContent k # elems) responses =
     collect_responses elems responses"

text \<open>
  \<^verbatim>\<open>call_tool(self, mcp_tool_name, **kwargs)\<close>, lines 131 to 160. Calling a method of
  \<^verbatim>\<open>None\<close> would raise \<^verbatim>\<open>AttributeError\<close>.
\<close>

definition call_tool ::
  "externals \<Rightarrow> world \<Rightarrow> client \<Rightarrow> string \<Rightarrow> pyval dict \<Rightarrow> world \<times> client \<times> (error + pyval)" where
  "call_tool X w s mcp_tool_name kwargs =
     (case (if u_session s = None then
              (case connect X w s of
                 (w1, s1, Inl e) \<Rightarrow> (w1, s1, Inl e)
               | (w1, s1, Inr u) \<Rightarrow>
                   if u_session s1 = None
                   then (w1, s1, Inl (Exception ''failed to connect to MCP server''))
                   else (w1, s1, Inr ()))
            else (w, s, Inr ())) of
        (w1, s1, Inl e) \<Rightarrow> (w1, s1, Inl e)
      | (w1, s1, Inr u) \<Rightarrow>
          (case u_session s1 of
             None \<Rightarrow> (w1, s1, Inl (Exception ''AttributeError''))
           | Some sess \<Rightarrow>
               (let w2 = emit (Session_call_tool sess mcp_tool_name kwargs) w1 in
                case session_call_tool X (trace w1) sess mcp_tool_name kwargs of
                  Inl e \<Rightarrow> (w2, s1, Inl e)
                | Inr ret \<Rightarrow>
                    if isError ret then (w2, s1, Inl (Exception (str_of_result X ret)))
                    else
                      (case collect_responses (content ret) [] of
                         Inl e \<Rightarrow> (w2, s1, Inl e)
                       | Inr responses \<Rightarrow>
                           (w2, s1,
                            Inr (if length responses = 1 then responses ! 0
                                 else PList responses))))))"

subsection \<open>The specification's normal form of a content element\<close>

text \<open>
  Section 4.1 of the specification, in its words: a text element becomes the text
  string; an image element becomes the structured value
  \<^verbatim>\<open>{type: "image_url", image_url: {url: "data:<mimeType>;base64,<data>"}}\<close>. It gives no
  value to any other element.
\<close>

fun spec_normalized :: "content \<Rightarrow> pyval option" where
  "spec_normalized (TextContent t) = Some (PStr t)"
| "spec_normalized (ImageContent d m) =
     Some (PDict [(''type'', PStr ''image_url''),
                  (''image_url'', PDict [(''url'', PStr (''data:'' @ m @ '';base64,'' @ d))])])"
| "spec_normalized (EmbeddedResource r) = None"
| "spec_normalized (OtherContent k) = None"

text \<open>The value returned for a list of normalized elements, in the specification's words.\<close>

definition spec_unwrap :: "pyval list \<Rightarrow> pyval" where
  "spec_unwrap rs = (case rs of [r] \<Rightarrow> r | _ \<Rightarrow> PList rs)"

fun is_embedded :: "content \<Rightarrow> bool" where
  "is_embedded (EmbeddedResource r) = True"
| "is_embedded e = False"

fun is_list_request :: "event \<Rightarrow> bool" where
  "is_list_request (Session_list_tools sess) = True"
| "is_list_request e = False"

text \<open>The events that open a transport.\<close>

fun is_transport :: "event \<Rightarrow> bool" where
  "is_transport (Stdio_client p) = True"
| "is_transport (Sse_client u h t1 t2) = True"
| "is_transport e = False"

text \<open>
  An entry of \<open>env\<close> as one visit of the constructor's loop leaves it: a blank value is
  replaced by the variable's value in the process environment when that value is set
  and not empty; every other entry stays as it is.
\<close>

fun written_back :: "externals \<Rightarrow> string \<times> string \<Rightarrow> string \<times> string" where
  "written_back X (k, v) =
     (if v = '''' then
        (case getenv X k of
           None \<Rightarrow> (k, v)
         | Some env_val \<Rightarrow> if env_val \<noteq> '''' then (k, env_val) else (k, v))
      else (k, v))"

subsection \<open>A concrete server and client, for the examples\<close>

definition example_server :: MCPServer where
  "example_server =
     \<lparr>session_timeout = 5, command = ''python'', args = [''server.py''],
      env = [(''API_KEY'', ''''), (''MODE'', ''fast'')], url = None, headers = [],
      timeout = 5, sse_read_timeout = 300\<rparr>"

definition example_world :: world where
  "example_world = \<lparr>configs = (\<lambda>a. example_server), trace = []\<rparr>"

definition example_result :: CallToolResult where
  "example_result = \<lparr>isError = False, content = [TextContent ''hello'']\<rparr>"

definition example_externals :: externals where
  "example_externals =
     \<lparr>getenv = [''API_KEY'' \<mapsto> ''secret''],
      stdio_client = (\<lambda>tr p. Inr (0, 1)),
      sse_client = (\<lambda>tr u h t1 t2. Inr (2, 3)),
      session_enter = (\<lambda>tr sess. Inr ()),
      session_initialize = (\<lambda>tr sess t. Inr ()),
      session_list_tools = (\<lambda>tr sess. Inr [Tool ''echo'' ''{}'']),
      session_call_tool = (\<lambda>tr sess nm kwargs. Inr example_result),
      str_of_result = (\<lambda>r. ''CallToolResult'')\<rparr>"

text \<open>The same libraries, with a server that answers every tool call with \<open>ret\<close>.\<close>

definition externals_answering :: "CallToolResult \<Rightarrow> externals" where
  "externals_answering ret =
     example_externals\<lparr>session_call_tool := (\<lambda>tr sess nm kwargs. Inr ret)\<rparr>"

text \<open>The same libraries, in a process whose environment is \<open>e\<close>.\<close>

definition externals_with_env :: "(string \<Rightarrow> string option) \<Rightarrow> externals" where
  "externals_with_env e = example_externals\<lparr>getenv := e\<rparr>"

text \<open>The same libraries, with a server that advertises no tool.\<close>

definition externals_no_tools :: externals where
  "externals_no_tools = example_externals\<lparr>session_list_tools := (\<lambda>tr sess. Inr [])\<rparr>"

text \<open>The same libraries, with a server whose handshake never answers in time.\<close>

definition externals_slow :: externals where
  "externals_slow =
     example_externals\<lparr>session_initialize := (\<lambda>tr sess t. Inl TimeoutError)\<rparr>"

text \<open>The same world, with the \<open>url\<close> field of the configuration set to \<open>u\<close>.\<close>

definition example_world_url :: "string option \<Rightarrow> world" where
  "example_world_url u = \<lparr>configs = (\<lambda>a. example_server\<lparr>url := u\<rparr>), trace = []\<rparr>"

text \<open>The same world, with the \<open>env\<close> field of the configuration set to \<open>e\<close>.\<close>

definition example_world_env :: "string dict \<Rightarrow> world" where
  "example_world_env e = \<lparr>configs = (\<lambda>a. example_server\<lparr>env := e\<rparr>), trace = []\<rparr>"

definition example_client :: client where
  "example_client =
     \<lparr>name = ''demo'', server = 0,
      server_params = \<lparr>sp_command = ''python'', sp_args = [''server.py''],
                       sp_env = [(''API_KEY'', ''secret''), (''MODE'', ''fast'')]\<rparr>,
      u_session = None, u_tools = [], u_read_stream = None, u_write_stream = None\<rparr>"

definition example_connected :: client where
  "example_connected =
     example_client\<lparr>u_session := Some (ClientSession 0 1), u_tools := [Tool ''echo'' ''{}''],
                    u_read_stream := Some 0, u_write_stream := Some 1\<rparr>"

section \<open>Properties\<close>

subsection \<open>Unfolding the methods on a client that has a session\<close>

lemma connect_connected: "u_session s \<noteq> None \<Longrightarrow> connect X w s = (w, s, Inr ())"
  by (simp add: connect.simps)

lemma tools_connected:
  "u_session s = Some sess \<Longrightarrow>
   tools X w s =
     (if u_tools s \<noteq> [] then (w, s, Inr (u_tools s))
      else (case session_list_tools X (trace w) sess of
              Inl e \<Rightarrow> (emit (Session_list_tools sess) w, s, Inl e)
            | Inr ts \<Rightarrow> (emit (Session_list_tools sess) w, s\<lparr>u_tools := ts\<rparr>, Inr ts)))"
  by (simp add: tools.simps Let_def)

subsection \<open>\<^verbatim>\<open>connect\<close> on a connected client\<close>

text \<open>
  Claim C6. \<^verbatim>\<open>connect\<close> is idempotent: on a client that already has a session it
  returns at once. The world is the one it was given, so no transport was opened and no
  handshake was run (the trace is unchanged), and the client object (session, streams,
  tool cache) is unchanged.
\<close>

theorem connect_idempotent:
  "u_session s \<noteq> None \<Longrightarrow> connect X w s = (w, s, Inr ())"
  by (simp add: connect.simps)

theorem connect_idempotent_witness:
  "u_session example_connected \<noteq> None \<and>
   connect example_externals example_world example_connected
     = (example_world, example_connected, Inr ())"
  using connect_idempotent [of example_connected example_externals example_world]
  by (simp add: example_connected_def)

subsection \<open>\<^verbatim>\<open>call_tool\<close>\<close>

lemma collect_responses_no_embedded:
  "\<forall>e\<in>set cs. \<not> is_embedded e \<Longrightarrow>
   collect_responses cs acc = Inr (acc @ List.map_filter spec_normalized cs)"
  by (induction cs acc rule: collect_responses.induct) (simp_all add: List.map_filter_simps)

lemma collect_responses_embedded:
  "EmbeddedResource r \<in> set cs \<Longrightarrow>
   collect_responses cs acc = Inl (Exception ''EmbeddedResource not supported yet'')"
  by (induction cs acc rule: collect_responses.induct) auto

lemma map_filter_all_Some: "map f xs = map Some rs \<Longrightarrow> List.map_filter f xs = rs"
  by (induction xs arbitrary: rs) (auto simp: List.map_filter_simps)

lemma all_Some_no_embedded:
  "map spec_normalized cs = map Some rs \<Longrightarrow> \<forall>e\<in>set cs. \<not> is_embedded e"
proof (induction cs arbitrary: rs)
  case Nil
  then show ?case by simp
next
  case (Cons c cs)
  then show ?case by (cases c; cases rs) auto
qed

lemma unwrap_eq: "(if length rs = 1 then rs ! 0 else PList rs) = spec_unwrap rs"
  by (cases rs; simp add: spec_unwrap_def split: list.splits)

lemma call_tool_response:
  assumes "connect X w s = (w1, s1, Inr ())"
    and "u_session s1 = Some sess"
    and "session_call_tool X (trace w1) sess nm kwargs = Inr ret"
  shows "call_tool X w s nm kwargs =
           (if isError ret
            then (emit (Session_call_tool sess nm kwargs) w1, s1,
                  Inl (Exception (str_of_result X ret)))
            else (case collect_responses (content ret) [] of
                    Inl e \<Rightarrow> (emit (Session_call_tool sess nm kwargs) w1, s1, Inl e)
                  | Inr responses \<Rightarrow>
                      (emit (Session_call_tool sess nm kwargs) w1, s1,
                       Inr (spec_unwrap responses))))"
proof (cases "u_session s")
  case None
  with assms show ?thesis by (simp add: call_tool_def Let_def unwrap_eq [symmetric] split: sum.splits)
next
  case (Some a)
  then have "connect X w s = (w, s, Inr ())" by (simp add: connect.simps)
  with assms have "w1 = w" "s1 = s" by simp_all
  with assms Some show ?thesis by (simp add: call_tool_def Let_def unwrap_eq [symmetric] split: sum.splits)
qed

text \<open>
  Claim C1. Take any call of \<^verbatim>\<open>call_tool\<close> that reaches the server (the client is
  connected, or \<^verbatim>\<open>connect\<close> succeeds first) and a response \<open>ret\<close> whose error flag is
  unset. When every element of the content has a normal form in the specification (it is
  a text or an image element) and \<open>rs\<close> lists these normal forms in order, the call
  returns the single element of \<open>rs\<close> when \<open>rs\<close> has exactly one, and the list \<open>rs\<close>
  otherwise, the empty list included.
\<close>

theorem call_tool_normalizes:
  assumes "connect X w s = (w1, s1, Inr ())"
    and "u_session s1 = Some sess"
    and "session_call_tool X (trace w1) sess nm kwargs = Inr ret"
    and "\<not> isError ret"
    and "map spec_normalized (content ret) = map Some rs"
  shows "call_tool X w s nm kwargs =
           (emit (Session_call_tool sess nm kwargs) w1, s1,
            Inr (spec_unwrap rs))"
proof -
  have "\<forall>e\<in>set (content ret). \<not> is_embedded e"
    using assms(5) by (rule all_Some_no_embedded)
  then have "collect_responses (content ret) [] = Inr rs"
    using assms(5) by (simp add: collect_responses_no_embedded map_filter_all_Some)
  with assms(4) show ?thesis
    by (simp add: call_tool_response [OF assms(1,2,3)])
qed

text \<open>
  Claim C2. When the response's error flag is set, \<^verbatim>\<open>call_tool\<close> raises an exception
  whose message is the string form of the raw response, whatever the content is; no
  value is returned.
\<close>

theorem call_tool_isError_raises:
  assumes "connect X w s = (w1, s1, Inr ())"
    and "u_session s1 = Some sess"
    and "session_call_tool X (trace w1) sess nm kwargs = Inr ret"
    and "isError ret"
  shows "call_tool X w s nm kwargs =
           (emit (Session_call_tool sess nm kwargs) w1, s1,
            Inl (Exception (str_of_result X ret)))"
  using assms(4) by (simp add: call_tool_response [OF assms(1,2,3)])

text \<open>
  Claim C3. When the content of the response (error flag unset) holds an embedded
  resource, at any position and among any other elements, \<^verbatim>\<open>call_tool\<close> raises
  "EmbeddedResource not supported yet": the result is the exception, neither a single
  element nor the list of the elements before the resource.
\<close>

theorem call_tool_embedded_resource_fails:
  assumes "connect X w s = (w1, s1, Inr ())"
    and "u_session s1 = Some sess"
    and "session_call_tool X (trace w1) sess nm kwargs = Inr ret"
    and "\<not> isError ret"
    and "EmbeddedResource r \<in> set (content ret)"
  shows "call_tool X w s nm kwargs =
           (emit (Session_call_tool sess nm kwargs) w1, s1,
            Inl (Exception ''EmbeddedResource not supported yet''))"
  using assms(4) collect_responses_embedded [OF assms(5), of "[]"]
  by (simp add: call_tool_response [OF assms(1,2,3)])

text \<open>
  Claim C9. An element that is neither text, image nor embedded resource is left out
  without an error: for a response (error flag unset) with no embedded resource the
  call succeeds, and its value is built from the normal forms of the text and image
  elements alone (\<open>List.map_filter\<close> drops the elements without a normal form), the
  single one when there is exactly one, their list otherwise.
\<close>

theorem call_tool_skips_other_content:
  assumes "connect X w s = (w1, s1, Inr ())"
    and "u_session s1 = Some sess"
    and "session_call_tool X (trace w1) sess nm kwargs = Inr ret"
    and "\<not> isError ret"
    and "\<forall>e\<in>set (content ret). \<not> is_embedded e"
  shows "call_tool X w s nm kwargs =
           (emit (Session_call_tool sess nm kwargs) w1, s1,
            Inr (spec_unwrap (List.map_filter spec_normalized (content ret))))"
  using assms(4) collect_responses_no_embedded [OF assms(5), of "[]"]
  by (simp add: call_tool_response [OF assms(1,2,3)])

theorem call_tool_normalizes_witness:
  "call_tool (externals_answering \<lparr>isError = False, content = [TextContent ''hello'']\<rparr>)
     example_world example_connected ''echo'' []
     = (emit (Session_call_tool (ClientSession 0 1) ''echo'' []) example_world,
        example_connected, Inr (PStr ''hello''))
   \<and> call_tool
       (externals_answering \<lparr>isError = False, content = [TextContent ''a'', TextContent ''b'']\<rparr>)
       example_world example_connected ''echo'' []
     = (emit (Session_call_tool (ClientSession 0 1) ''echo'' []) example_world,
        example_connected, Inr (PList [PStr ''a'', PStr ''b'']))
   \<and> call_tool
       (externals_answering \<lparr>isError = False, content = [ImageContent ''AAAA'' ''image/png'']\<rparr>)
       example_world example_connected ''echo'' []
     = (emit (Session_call_tool (ClientSession 0 1) ''echo'' []) example_world,
        example_connected,
        Inr (PDict [(''type'', PStr ''image_url''),
                    (''image_url'', PDict [(''url'', PStr ''data:image/png;base64,AAAA'')])]))
   \<and> call_tool (externals_answering \<lparr>isError = False, content = []\<rparr>)
       example_world example_connected ''echo'' []
     = (emit (Session_call_tool (ClientSession 0 1) ''echo'' []) example_world,
        example_connected, Inr (PList []))"
proof -
  have c: "connect X example_world example_connected = (example_world, example_connected, Inr ())"
    for X by (simp add: connect_connected example_connected_def)
  have s: "u_session example_connected = Some (ClientSession 0 1)"
    by (simp add: example_connected_def)
  have a: "session_call_tool (externals_answering ret) tr sess nm kwargs = Inr ret"
    for ret tr sess nm kwargs by (simp add: externals_answering_def)
  show ?thesis
    using call_tool_normalizes [OF c s a, of "\<lparr>isError = False, content = [TextContent ''hello'']\<rparr>"
        "[PStr ''hello'']" "''echo''" "[]"]
      call_tool_normalizes [OF c s a,
        of "\<lparr>isError = False, content = [TextContent ''a'', TextContent ''b'']\<rparr>"
        "[PStr ''a'', PStr ''b'']" "''echo''" "[]"]
      call_tool_normalizes [OF c s a,
        of "\<lparr>isError = False, content = [ImageContent ''AAAA'' ''image/png'']\<rparr>"
        "[PDict [(''type'', PStr ''image_url''),
                 (''image_url'', PDict [(''url'', PStr ''data:image/png;base64,AAAA'')])]]"
        "''echo''" "[]"]
      call_tool_normalizes [OF c s a, of "\<lparr>isError = False, content = []\<rparr>" "[]" "''echo''" "[]"]
    by (simp add: spec_unwrap_def)
qed

theorem call_tool_isError_raises_witness:
  "isError \<lparr>isError = True, content = [TextContent ''boom'']\<rparr>
   \<and> call_tool (externals_answering \<lparr>isError = True, content = [TextContent ''boom'']\<rparr>)
       example_world example_connected ''echo'' []
     = (emit (Session_call_tool (ClientSession 0 1) ''echo'' []) example_world,
        example_connected, Inl (Exception ''CallToolResult''))"
proof -
  have c: "connect X example_world example_connected = (example_world, example_connected, Inr ())"
    for X by (simp add: connect_connected example_connected_def)
  have s: "u_session example_connected = Some (ClientSession 0 1)"
    by (simp add: example_connected_def)
  have a: "session_call_tool (externals_answering ret) tr sess nm kwargs = Inr ret"
    for ret tr sess nm kwargs by (simp add: externals_answering_def)
  show ?thesis
    using call_tool_isError_raises [OF c s a,
        of "\<lparr>isError = True, content = [TextContent ''boom'']\<rparr>" "''echo''" "[]"]
    by (simp add: externals_answering_def example_externals_def)
qed

theorem call_tool_embedded_resource_fails_witness:
  "EmbeddedResource ''file:///x'' \<in> set [TextContent ''a'', EmbeddedResource ''file:///x'']
   \<and> call_tool
       (externals_answering
          \<lparr>isError = False, content = [TextContent ''a'', EmbeddedResource ''file:///x'']\<rparr>)
       example_world example_connected ''echo'' []
     = (emit (Session_call_tool (ClientSession 0 1) ''echo'' []) example_world,
        example_connected, Inl (Exception ''EmbeddedResource not supported yet''))"
proof -
  have c: "connect X example_world example_connected = (example_world, example_connected, Inr ())"
    for X by (simp add: connect_connected example_connected_def)
  have s: "u_session example_connected = Some (ClientSession 0 1)"
    by (simp add: example_connected_def)
  have a: "session_call_tool (externals_answering ret) tr sess nm kwargs = Inr ret"
    for ret tr sess nm kwargs by (simp add: externals_answering_def)
  show ?thesis
    using call_tool_embedded_resource_fails [OF c s a,
        of "\<lparr>isError = False, content = [TextContent ''a'', EmbeddedResource ''file:///x'']\<rparr>"
        "''file:///x''" "''echo''" "[]"]
    by simp
qed

theorem call_tool_skips_other_content_witness:
  "call_tool
       (externals_answering
          \<lparr>isError = False, content = [OtherContent ''audio'', TextContent ''a'']\<rparr>)
       example_world example_connected ''echo'' []
     = (emit (Session_call_tool (ClientSession 0 1) ''echo'' []) example_world,
        example_connected, Inr (PStr ''a''))"
proof -
  have c: "connect X example_world example_connected = (example_world, example_connected, Inr ())"
    for X by (simp add: connect_connected example_connected_def)
  have s: "u_session example_connected = Some (ClientSession 0 1)"
    by (simp add: example_connected_def)
  have a: "session_call_tool (externals_answering ret) tr sess nm kwargs = Inr ret"
    for ret tr sess nm kwargs by (simp add: externals_answering_def)
  show ?thesis
    using call_tool_skips_other_content [OF c s a,
        of "\<lparr>isError = False, content = [OtherContent ''audio'', TextContent ''a'']\<rparr>"
        "''echo''" "[]"]
    by (simp add: spec_unwrap_def List.map_filter_simps)
qed

subsection \<open>The tool cache\<close>

text \<open>
  Claim C5, as amended. On a client with a session, a call of \<^verbatim>\<open>tools\<close> that returns a
  non-empty list leaves a cache that the next call returns unchanged, with the world
  (and so the trace) unchanged: the second call sends no request. The first call sent
  none or one, so the two calls together send at most one list request.
\<close>

theorem tools_cache_hit:
  assumes "u_session s = Some sess"
    and "tools X w s = (w1, s1, Inr ts)"
    and "ts \<noteq> []"
  shows "tools X w1 s1 = (w1, s1, Inr ts)
         \<and> (trace w1 = trace w \<or> trace w1 = trace w @ [Session_list_tools sess])
         \<and> length (filter is_list_request (trace w1))
             \<le> length (filter is_list_request (trace w)) + 1"
proof (cases "u_tools s = []")
  case False
  with assms show ?thesis by (auto simp: tools_connected)
next
  case True
  with assms obtain
    "session_list_tools X (trace w) sess = Inr ts"
    "w1 = emit (Session_list_tools sess) w" "s1 = s\<lparr>u_tools := ts\<rparr>"
    by (auto simp: tools_connected split: sum.splits)
  with assms show ?thesis by (simp add: tools_connected emit_def)
qed

theorem tools_cache_hit_witness:
  "u_session (example_connected\<lparr>u_tools := []\<rparr>) = Some (ClientSession 0 1)
   \<and> tools example_externals example_world (example_connected\<lparr>u_tools := []\<rparr>)
     = (emit (Session_list_tools (ClientSession 0 1)) example_world, example_connected,
        Inr [Tool ''echo'' ''{}''])
   \<and> tools example_externals (emit (Session_list_tools (ClientSession 0 1)) example_world)
       example_connected
     = (emit (Session_list_tools (ClientSession 0 1)) example_world, example_connected,
        Inr [Tool ''echo'' ''{}''])"
proof -
  have s: "u_session (example_connected\<lparr>u_tools := []\<rparr>) = Some (ClientSession 0 1)"
    by (simp add: example_connected_def)
  have run: "tools example_externals example_world (example_connected\<lparr>u_tools := []\<rparr>)
     = (emit (Session_list_tools (ClientSession 0 1)) example_world, example_connected,
        Inr [Tool ''echo'' ''{}''])"
    by (subst tools_connected [OF s]) (simp add: example_externals_def example_connected_def)
  from tools_cache_hit [OF s run] s run show ?thesis by simp
qed

text \<open>
  The claim as the specification states it fails when the server advertises no tool:
  the cache stays empty, and each of two calls of \<^verbatim>\<open>tools\<close> on the connected client
  sends a list request.
\<close>

theorem tools_refetch_counterexample:
  "connect externals_no_tools example_world example_client
     = (example_world\<lparr>trace := [Stdio_client (server_params example_client),
                                 Session_enter (ClientSession 0 1),
                                 Session_initialize (ClientSession 0 1) 5,
                                 Session_list_tools (ClientSession 0 1)]\<rparr>,
        example_connected\<lparr>u_tools := []\<rparr>, Inr ())
   \<and> u_session (example_connected\<lparr>u_tools := []\<rparr>) = Some (ClientSession 0 1)
   \<and> tools externals_no_tools
       (example_world\<lparr>trace := [Stdio_client (server_params example_client),
                                 Session_enter (ClientSession 0 1),
                                 Session_initialize (ClientSession 0 1) 5,
                                 Session_list_tools (ClientSession 0 1)]\<rparr>)
       (example_connected\<lparr>u_tools := []\<rparr>)
     = (example_world\<lparr>trace := [Stdio_client (server_params example_client),
                                 Session_enter (ClientSession 0 1),
                                 Session_initialize (ClientSession 0 1) 5,
                                 Session_list_tools (ClientSession 0 1),
                                 Session_list_tools (ClientSession 0 1)]\<rparr>,
        example_connected\<lparr>u_tools := []\<rparr>, Inr [])
   \<and> tools externals_no_tools
       (example_world\<lparr>trace := [Stdio_client (server_params example_client),
                                 Session_enter (ClientSession 0 1),
                                 Session_initialize (ClientSession 0 1) 5,
                                 Session_list_tools (ClientSession 0 1),
                                 Session_list_tools (ClientSession 0 1)]\<rparr>)
       (example_connected\<lparr>u_tools := []\<rparr>)
     = (example_world\<lparr>trace := [Stdio_client (server_params example_client),
                                 Session_enter (ClientSession 0 1),
                                 Session_initialize (ClientSession 0 1) 5,
                                 Session_list_tools (ClientSession 0 1),
                                 Session_list_tools (ClientSession 0 1),
                                 Session_list_tools (ClientSession 0 1)]\<rparr>,
        example_connected\<lparr>u_tools := []\<rparr>, Inr [])"
  by (simp add: connect.simps tools.simps create_stdio_streams_def Let_def emit_def
      externals_no_tools_def example_externals_def example_world_def example_client_def
      example_connected_def example_server_def)

subsection \<open>\<^verbatim>\<open>connect\<close> on a client without a session\<close>

lemma create_stdio_streams_world:
  "fst (create_stdio_streams X w s) = emit (Stdio_client (server_params s)) w"
  by (simp add: create_stdio_streams_def Let_def split: sum.splits)

lemma create_sse_streams_world:
  "url (configs w (server s)) = Some u \<Longrightarrow> u \<noteq> '''' \<Longrightarrow>
   fst (create_sse_streams X w s) =
     emit (Sse_client u (headers (configs w (server s))) (timeout (configs w (server s)))
             (sse_read_timeout (configs w (server s)))) w"
  by (simp add: create_sse_streams_def Let_def split: sum.splits)

text \<open>The events that \<^verbatim>\<open>connect\<close> adds once the transport is open open no transport.\<close>

lemma connect_after_transport:
  assumes "u_session s = None"
  shows "\<exists>w1 r rest.
           (if truthy (url (configs w (server s))) then create_sse_streams X w s
            else create_stdio_streams X w s) = (w1, r)
           \<and> trace (fst (connect X w s)) = trace w1 @ rest
           \<and> filter is_transport rest = []"
proof -
  obtain w1 r where c: "(if truthy (url (configs w (server s))) then create_sse_streams X w s
            else create_stdio_streams X w s) = (w1, r)" by (cases "(if truthy (url (configs w (server s))) then create_sse_streams X w s
            else create_stdio_streams X w s)")
  have "\<exists>rest. trace (fst (connect X w s)) = trace w1 @ rest \<and> filter is_transport rest = []"
    using assms
    by (subst connect.simps)
       (auto simp: c Let_def emit_def tools_connected split: sum.splits prod.splits)
  with c show ?thesis by blast
qed

text \<open>
  Claim C7. Take a client without a session whose selected transport opens and whose
  session context is entered. When \<^verbatim>\<open>asyncio.wait_for\<close> raises \<open>TimeoutError\<close> for the
  handshake (the deadline \<open>session_timeout\<close> passed first), \<^verbatim>\<open>connect\<close> logs the
  timeout and raises \<open>SystemExit 1\<close>: the exit status is not zero, the trace holds one
  handshake attempt and none after it, and what reaches the caller is the exit, not an
  \<^verbatim>\<open>Exception\<close>.
\<close>

theorem connect_timeout_exits:
  assumes "u_session s = None"
    and "(if truthy (url (configs w (server s))) then create_sse_streams X w s
          else create_stdio_streams X w s) = (w1, Inr (r, wr))"
    and "session_enter X (trace w1) (ClientSession r wr) = Inr ()"
    and "session_initialize X (trace w1 @ [Session_enter (ClientSession r wr)])
           (ClientSession r wr) (session_timeout (configs w1 (server s))) = Inl TimeoutError"
  shows "connect X w s =
           (w1\<lparr>trace := trace w1 @
                  [Session_enter (ClientSession r wr),
                   Session_initialize (ClientSession r wr)
                     (session_timeout (configs w1 (server s))),
                   Log_error ''mcp server {} initialization timeout'' [name s]]\<rparr>,
            s\<lparr>u_read_stream := Some r, u_write_stream := Some wr,
               u_session := Some (ClientSession r wr)\<rparr>,
            Inl (SystemExit 1))"
  using assms(1,3,4)
  by (subst connect.simps) (simp add: assms(2) Let_def emit_def)

theorem connect_timeout_exits_witness:
  "u_session example_client = None
   \<and> session_initialize externals_slow
        [Stdio_client (server_params example_client), Session_enter (ClientSession 0 1)]
        (ClientSession 0 1) 5 = Inl TimeoutError
   \<and> connect externals_slow example_world example_client
     = (example_world\<lparr>trace := [Stdio_client (server_params example_client),
                                 Session_enter (ClientSession 0 1),
                                 Session_initialize (ClientSession 0 1) 5,
                                 Log_error ''mcp server {} initialization timeout'' [''demo'']]\<rparr>,
        example_client\<lparr>u_read_stream := Some 0, u_write_stream := Some 1,
                        u_session := Some (ClientSession 0 1)\<rparr>,
        Inl (SystemExit 1))"
  using connect_timeout_exits [of example_client example_world externals_slow
      "emit (Stdio_client (server_params example_client)) example_world" 0 1]
  by (simp add: create_stdio_streams_def Let_def emit_def externals_slow_def
      example_externals_def example_world_def example_client_def example_server_def)

text \<open>
  Claim C8, as amended. On a client without a session, \<^verbatim>\<open>connect\<close> chooses the transport
  from the \<open>url\<close> field alone: when \<open>url\<close> is a non-empty string the first thing it does
  is to open the network (SSE) transport with that url; when \<open>url\<close> is \<^verbatim>\<open>None\<close> or the
  empty string it opens the subprocess (stdio) transport. No other transport is opened
  afterwards.
\<close>

theorem connect_selects_transport:
  assumes "u_session s = None"
  shows "(\<forall>u. url (configs w (server s)) = Some u \<and> u \<noteq> '''' \<longrightarrow>
            (\<exists>rest. trace (fst (connect X w s)) =
                      trace w @
                      Sse_client u (headers (configs w (server s)))
                        (timeout (configs w (server s)))
                        (sse_read_timeout (configs w (server s))) # rest
                    \<and> filter is_transport rest = []))
         \<and> (url (configs w (server s)) = None \<or> url (configs w (server s)) = Some '''' \<longrightarrow>
            (\<exists>rest. trace (fst (connect X w s)) =
                      trace w @ Stdio_client (server_params s) # rest
                    \<and> filter is_transport rest = []))"
proof (intro conjI allI impI)
  fix u
  assume u: "url (configs w (server s)) = Some u \<and> u \<noteq> ''''"
  then have t: "truthy (url (configs w (server s)))" by simp
  from connect_after_transport [OF assms, of w X] obtain w1 r rest where
    c: "create_sse_streams X w s = (w1, r)"
       "trace (fst (connect X w s)) = trace w1 @ rest" "filter is_transport rest = []"
    using t by auto
  from u c(1) have "w1 = emit (Sse_client u (headers (configs w (server s)))
                        (timeout (configs w (server s)))
                        (sse_read_timeout (configs w (server s)))) w"
    using create_sse_streams_world [of w s u X] by simp
  with c(2,3) show "\<exists>rest. trace (fst (connect X w s)) =
                      trace w @
                      Sse_client u (headers (configs w (server s)))
                        (timeout (configs w (server s)))
                        (sse_read_timeout (configs w (server s))) # rest
                    \<and> filter is_transport rest = []"
    by (simp add: emit_def)
next
  assume "url (configs w (server s)) = None \<or> url (configs w (server s)) = Some ''''"
  then have t: "\<not> truthy (url (configs w (server s)))" by auto
  from connect_after_transport [OF assms, of w X] obtain w1 r rest where
    c: "create_stdio_streams X w s = (w1, r)"
       "trace (fst (connect X w s)) = trace w1 @ rest" "filter is_transport rest = []"
    using t by auto
  from c(1) have "w1 = emit (Stdio_client (server_params s)) w"
    using create_stdio_streams_world [of X w s] by simp
  with c(2,3) show "\<exists>rest. trace (fst (connect X w s)) =
                      trace w @ Stdio_client (server_params s) # rest
                    \<and> filter is_transport rest = []"
    by (simp add: emit_def)
qed

theorem connect_selects_transport_witness:
  "u_session example_client = None
   \<and> url (configs (example_world_url (Some ''http://localhost:9000/sse'')) (server example_client))
       = Some ''http://localhost:9000/sse''
   \<and> (\<exists>rest. trace (fst (connect example_externals
                   (example_world_url (Some ''http://localhost:9000/sse'')) example_client))
               = Sse_client ''http://localhost:9000/sse'' [] 5 300 # rest
             \<and> filter is_transport rest = [])
   \<and> url (configs (example_world_url None) (server example_client)) = None
   \<and> (\<exists>rest. trace (fst (connect example_externals (example_world_url None) example_client))
               = Stdio_client (server_params example_client) # rest
             \<and> filter is_transport rest = [])"
proof -
  have s: "u_session example_client = None" by (simp add: example_client_def)
  show ?thesis
    using connect_selects_transport [OF s, of "example_world_url (Some ''http://localhost:9000/sse'')"
        example_externals]
      connect_selects_transport [OF s, of "example_world_url None" example_externals]
    by (simp add: example_client_def example_world_url_def example_server_def)
qed

text \<open>
  The claim as the specification states it fails for a configuration whose \<open>url\<close> field
  is present and empty: the subprocess transport is opened.
\<close>

theorem connect_empty_url_counterexample:
  "url (configs (example_world_url (Some '''')) (server example_client)) = Some ''''
   \<and> connect example_externals (example_world_url (Some '''')) example_client
     = ((example_world_url (Some ''''))
          \<lparr>trace := [Stdio_client (server_params example_client),
                      Session_enter (ClientSession 0 1),
                      Session_initialize (ClientSession 0 1) 5,
                      Session_list_tools (ClientSession 0 1)]\<rparr>,
        example_connected, Inr ())"
  by (simp add: connect.simps tools.simps create_stdio_streams_def Let_def emit_def
      example_externals_def example_world_url_def example_client_def
      example_connected_def example_server_def)

subsection \<open>The constructor\<close>

lemma init_env_loop_success:
  assumes "set ks \<subseteq> dom (map_of (env (configs w a)))"
    and "\<forall>k\<in>set ks. map_of (env (configs w a)) k = Some '''' \<longrightarrow>
           (\<exists>e. getenv X k = Some e \<and> e \<noteq> '''')"
  shows "\<exists>E. init_env_loop X a ks w =
               (w\<lparr>configs := (configs w)(a := (configs w a)\<lparr>env := E\<rparr>)\<rparr>, Inr ())
           \<and> map fst E = map fst (env (configs w a))
           \<and> map_of E = (\<lambda>k. if k \<in> set ks \<and> map_of (env (configs w a)) k = Some ''''
                               then getenv X k else map_of (env (configs w a)) k)"
  using assms
proof (induction ks arbitrary: w)
  case Nil
  have "w\<lparr>configs := (configs w)(a := (configs w a)\<lparr>env := env (configs w a)\<rparr>)\<rparr> = w"
    by simp
  then show ?case by (intro exI[of _ "env (configs w a)"]) simp
next
  case (Cons key keys)
  let ?m = "map_of (env (configs w a))"
  from Cons.prems(1) obtain val where val: "?m key = Some val" by auto
  show ?case
  proof (cases "val = ''''")
    case False
    have sub: "set keys \<subseteq> dom ?m" using Cons.prems(1) by auto
    have res: "\<forall>k\<in>set keys. ?m k = Some '''' \<longrightarrow> (\<exists>e. getenv X k = Some e \<and> e \<noteq> '''')"
      using Cons.prems(2) by auto
    from Cons.IH[OF sub res] obtain E where
      E: "init_env_loop X a keys w =
            (w\<lparr>configs := (configs w)(a := (configs w a)\<lparr>env := E\<rparr>)\<rparr>, Inr ())"
         "map fst E = map fst (env (configs w a))"
         "map_of E = (\<lambda>k. if k \<in> set keys \<and> ?m k = Some '''' then getenv X k else ?m k)"
      by blast
    have "map_of E = (\<lambda>k. if k \<in> set (key # keys) \<and> ?m k = Some '''' then getenv X k else ?m k)"
      using E(3) val False by (auto simp: fun_eq_iff)
    moreover have "init_env_loop X a (key # keys) w =
            (w\<lparr>configs := (configs w)(a := (configs w a)\<lparr>env := E\<rparr>)\<rparr>, Inr ())"
      using val False E(1) by simp
    ultimately show ?thesis using E(2) by blast
  next
    case True
    with Cons.prems(2) val obtain e where e: "getenv X key = Some e" "e \<noteq> ''''" by auto
    let ?w1 = "set_env_item a key e w"
    let ?m1 = "map_of (env (configs ?w1 a))"
    have m1: "?m1 = ?m(key \<mapsto> e)"
      by (simp add: set_env_item_def AList.update_conv')
    have keys1: "map fst (env (configs ?w1 a)) = map fst (env (configs w a))"
      using val by (auto simp: set_env_item_def AList.update_keys dest: map_of_SomeD
          intro: rev_image_eqI)
    have sub: "set keys \<subseteq> dom ?m1" using Cons.prems(1) by (auto simp: m1)
    have res: "\<forall>k\<in>set keys. ?m1 k = Some '''' \<longrightarrow> (\<exists>e. getenv X k = Some e \<and> e \<noteq> '''')"
      using Cons.prems(2) e by (auto simp: m1 split: if_splits)
    from Cons.IH[OF sub res] obtain E where
      E: "init_env_loop X a keys ?w1 =
            (?w1\<lparr>configs := (configs ?w1)(a := (configs ?w1 a)\<lparr>env := E\<rparr>)\<rparr>, Inr ())"
         "map fst E = map fst (env (configs ?w1 a))"
         "map_of E = (\<lambda>k. if k \<in> set keys \<and> ?m1 k = Some '''' then getenv X k else ?m1 k)"
      by blast
    have w1: "?w1\<lparr>configs := (configs ?w1)(a := (configs ?w1 a)\<lparr>env := E\<rparr>)\<rparr>
              = w\<lparr>configs := (configs w)(a := (configs w a)\<lparr>env := E\<rparr>)\<rparr>"
      by (simp add: set_env_item_def)
    have f_map: "map_of E = (\<lambda>k. if k \<in> set (key # keys) \<and> ?m k = Some '''' then getenv X k else ?m k)"
      using E(3) val True e by (auto simp: fun_eq_iff m1)
    have f_run: "init_env_loop X a (key # keys) w =
            (w\<lparr>configs := (configs w)(a := (configs w a)\<lparr>env := E\<rparr>)\<rparr>, Inr ())"
      using val True e E(1) m1 by (simp add: w1)
    have f_keys: "map fst E = map fst (env (configs w a))" using E(2) keys1 by simp
    show ?thesis by (intro exI[of _ E] conjI) (rule f_run, rule f_keys, rule f_map)
  qed
qed

lemma init_env_loop_failure:
  assumes "set ks \<subseteq> dom (map_of (env (configs w a)))"
    and "\<exists>k\<in>set ks. map_of (env (configs w a)) k = Some '''' \<and>
           (getenv X k = None \<or> getenv X k = Some '''')"
  shows "\<exists>E k. init_env_loop X a ks w =
               (w\<lparr>configs := (configs w)(a := (configs w a)\<lparr>env := E\<rparr>),
                  trace := trace w @
                    [Log_error ''mcp server {} environment variable {} is not set'' ['''', k]]\<rparr>,
                Inl (SystemExit 1))
             \<and> map_of E k = Some ''''"
  using assms
proof (induction ks arbitrary: w)
  case Nil
  then show ?case by simp
next
  case (Cons key keys)
  let ?m = "map_of (env (configs w a))"
  let ?msg = "''mcp server {} environment variable {} is not set''"
  from Cons.prems(1) obtain val where val: "?m key = Some val" by auto
  have same: "w\<lparr>configs := (configs w)(a := (configs w a)\<lparr>env := env (configs w a)\<rparr>)\<rparr> = w"
    by simp
  consider (fails) "val = ''''" "getenv X key = None \<or> getenv X key = Some ''''"
    | (resolved) e where "val = ''''" "getenv X key = Some e" "e \<noteq> ''''"
    | (set) "val \<noteq> ''''"
    by (cases "getenv X key") auto
  then show ?case
  proof cases
    case fails
    then have "init_env_loop X a (key # keys) w
                 = (w\<lparr>trace := trace w @ [Log_error ?msg ['''', key]]\<rparr>, Inl (SystemExit 1))"
      using val by (auto simp: emit_def)
    then have "init_env_loop X a (key # keys) w
                 = (w\<lparr>configs := (configs w)(a := (configs w a)\<lparr>env := env (configs w a)\<rparr>),
                      trace := trace w @ [Log_error ?msg ['''', key]]\<rparr>, Inl (SystemExit 1))"
      by (simp only: same)
    moreover have "map_of (env (configs w a)) key = Some ''''" using val fails by simp
    ultimately show ?thesis by blast
  next
    case set
    have sub: "set keys \<subseteq> dom ?m" using Cons.prems(1) by auto
    have bad: "\<exists>k\<in>set keys. ?m k = Some '''' \<and> (getenv X k = None \<or> getenv X k = Some '''')"
      using Cons.prems(2) val set by auto
    have "init_env_loop X a (key # keys) w = init_env_loop X a keys w"
      using val set by simp
    with Cons.IH[OF sub bad] show ?thesis by simp
  next
    case resolved
    let ?w1 = "set_env_item a key e w"
    let ?m1 = "map_of (env (configs ?w1 a))"
    have m1: "?m1 = ?m(key \<mapsto> e)"
      by (simp add: set_env_item_def AList.update_conv')
    have sub: "set keys \<subseteq> dom ?m1" using Cons.prems(1) by (auto simp: m1)
    from Cons.prems(2) obtain k0 where
      k0: "k0 \<in> set (key # keys)" "?m k0 = Some ''''"
          "getenv X k0 = None \<or> getenv X k0 = Some ''''"
      by blast
    have "k0 \<noteq> key" using k0(3) resolved by auto
    then have "k0 \<in> set keys" "?m1 k0 = Some ''''" using k0 by (simp_all add: m1)
    then have bad: "\<exists>k\<in>set keys. ?m1 k = Some '''' \<and> (getenv X k = None \<or> getenv X k = Some '''')"
      using k0(3) by blast
    have step: "init_env_loop X a (key # keys) w = init_env_loop X a keys ?w1"
      using val resolved m1 by simp
    from Cons.IH[OF sub bad] obtain E k where
      E: "init_env_loop X a keys ?w1 =
            (?w1\<lparr>configs := (configs ?w1)(a := (configs ?w1 a)\<lparr>env := E\<rparr>),
                 trace := trace ?w1 @ [Log_error ?msg ['''', k]]\<rparr>, Inl (SystemExit 1))"
         "map_of E k = Some ''''"
      by blast
    have w1: "?w1\<lparr>configs := (configs ?w1)(a := (configs ?w1 a)\<lparr>env := E\<rparr>),
                 trace := trace ?w1 @ [Log_error ?msg ['''', k]]\<rparr>
              = w\<lparr>configs := (configs w)(a := (configs w a)\<lparr>env := E\<rparr>),
                 trace := trace w @ [Log_error ?msg ['''', k]]\<rparr>"
      by (simp add: set_env_item_def)
    have "init_env_loop X a (key # keys) w =
            (w\<lparr>configs := (configs w)(a := (configs w a)\<lparr>env := E\<rparr>),
                 trace := trace w @ [Log_error ?msg ['''', k]]\<rparr>, Inl (SystemExit 1))"
      using step E(1) by (simp only: w1)
    with E(2) show ?thesis by blast
  qed
qed

lemma keys_in_dom: "set (map fst al) \<subseteq> dom (map_of al)"
  by (auto simp: dom_map_of_conv_image_fst)

lemma Client_init_success:
  assumes "\<forall>k. map_of (env (configs w a)) k = Some '''' \<longrightarrow>
             (\<exists>v. getenv X k = Some v \<and> v \<noteq> '''')"
  shows "\<exists>E. Client_init X w nm a =
               (w\<lparr>configs := (configs w)(a := (configs w a)\<lparr>env := E\<rparr>)\<rparr>,
                Inr \<lparr>name = nm, server = a,
                     server_params = \<lparr>sp_command = command (configs w a),
                                      sp_args = args (configs w a), sp_env = E\<rparr>,
                     u_session = None, u_tools = [],
                     u_read_stream = None, u_write_stream = None\<rparr>)
           \<and> map fst E = map fst (env (configs w a))
           \<and> map_of E = (\<lambda>k. if map_of (env (configs w a)) k = Some ''''
                               then getenv X k else map_of (env (configs w a)) k)"
proof -
  let ?m = "map_of (env (configs w a))"
  let ?ks = "map fst (env (configs w a))"
  have res: "\<forall>k\<in>set ?ks. ?m k = Some '''' \<longrightarrow> (\<exists>e. getenv X k = Some e \<and> e \<noteq> '''')"
    using assms by blast
  from init_env_loop_success [OF keys_in_dom res] obtain E where
    E: "init_env_loop X a ?ks w =
          (w\<lparr>configs := (configs w)(a := (configs w a)\<lparr>env := E\<rparr>)\<rparr>, Inr ())"
       "map fst E = ?ks"
       "map_of E = (\<lambda>k. if k \<in> set ?ks \<and> ?m k = Some '''' then getenv X k else ?m k)"
    by blast
  have "k \<in> set ?ks" if "?m k = Some ''''" for k
    using that by (auto dest: map_of_SomeD intro: rev_image_eqI)
  then have f_map: "map_of E = (\<lambda>k. if ?m k = Some '''' then getenv X k else ?m k)"
    using E(3) by (auto simp: fun_eq_iff)
  have f_run: "Client_init X w nm a =
               (w\<lparr>configs := (configs w)(a := (configs w a)\<lparr>env := E\<rparr>)\<rparr>,
                Inr \<lparr>name = nm, server = a,
                     server_params = \<lparr>sp_command = command (configs w a),
                                      sp_args = args (configs w a), sp_env = E\<rparr>,
                     u_session = None, u_tools = [],
                     u_read_stream = None, u_write_stream = None\<rparr>)"
    by (simp add: Client_init_def E(1))
  show ?thesis by (intro exI[of _ E] conjI) (rule f_run, rule E(2), rule f_map)
qed

lemma Client_init_failure:
  assumes "map_of (env (configs w a)) k = Some ''''"
    and "getenv X k = None \<or> getenv X k = Some ''''"
  shows "\<exists>E k'. Client_init X w nm a =
               (w\<lparr>configs := (configs w)(a := (configs w a)\<lparr>env := E\<rparr>),
                  trace := trace w @
                    [Log_error ''mcp server {} environment variable {} is not set'' ['''', k']]\<rparr>,
                Inl (SystemExit 1))"
proof -
  let ?m = "map_of (env (configs w a))"
  let ?ks = "map fst (env (configs w a))"
  have "k \<in> set ?ks" using assms(1) by (auto dest: map_of_SomeD intro: rev_image_eqI)
  with assms have bad: "\<exists>k\<in>set ?ks. ?m k = Some '''' \<and> (getenv X k = None \<or> getenv X k = Some '''')"
    by blast
  from init_env_loop_failure [OF keys_in_dom bad] obtain E k' where
    "init_env_loop X a ?ks w =
       (w\<lparr>configs := (configs w)(a := (configs w a)\<lparr>env := E\<rparr>),
          trace := trace w @
            [Log_error ''mcp server {} environment variable {} is not set'' ['''', k']]\<rparr>,
        Inl (SystemExit 1))"
    by blast
  then have "Client_init X w nm a =
       (w\<lparr>configs := (configs w)(a := (configs w a)\<lparr>env := E\<rparr>),
          trace := trace w @
            [Log_error ''mcp server {} environment variable {} is not set'' ['''', k']]\<rparr>,
        Inl (SystemExit 1))"
    by (simp add: Client_init_def)
  then show ?thesis by blast
qed

text \<open>
  Claim C4, as amended. If some entry of \<open>env\<close> is blank and its variable is absent from
  the process environment (or set there to the empty string), the constructor raises
  \<open>SystemExit 1\<close> after logging the variable; the trace gains that log line only, so no
  transport was touched, and no client is returned. If every blank entry's variable is
  set to a non-empty string in the process environment, the constructor returns a
  client, the trace is unchanged, and the \<open>env\<close> of the client's
  \<^verbatim>\<open>StdioServerParameters\<close> maps each such variable to its value in the process
  environment; these parameters are the ones \<^verbatim>\<open>_create_stdio_streams\<close> hands to the
  subprocess transport.
\<close>

theorem init_env_resolution:
  "((\<exists>k. map_of (env (configs w a)) k = Some '''' \<and>
          (getenv X k = None \<or> getenv X k = Some '''')) \<longrightarrow>
      (\<exists>w1 k. Client_init X w nm a = (w1, Inl (SystemExit 1))
         \<and> trace w1 = trace w @
             [Log_error ''mcp server {} environment variable {} is not set'' ['''', k]]))
   \<and> ((\<forall>k. map_of (env (configs w a)) k = Some '''' \<longrightarrow>
            (\<exists>v. getenv X k = Some v \<and> v \<noteq> '''')) \<longrightarrow>
      (\<exists>w1 c. Client_init X w nm a = (w1, Inr c)
         \<and> trace w1 = trace w
         \<and> (\<forall>k. map_of (env (configs w a)) k = Some '''' \<longrightarrow>
                map_of (sp_env (server_params c)) k = getenv X k)
         \<and> (\<forall>X' w'. trace (fst (create_stdio_streams X' w' c))
                      = trace w' @ [Stdio_client (server_params c)])))"
proof (intro conjI impI)
  assume "\<exists>k. map_of (env (configs w a)) k = Some '''' \<and>
            (getenv X k = None \<or> getenv X k = Some '''')"
  then obtain k where "map_of (env (configs w a)) k = Some ''''"
    "getenv X k = None \<or> getenv X k = Some ''''" by blast
  from Client_init_failure [OF this, of nm] obtain E k' where
    "Client_init X w nm a =
       (w\<lparr>configs := (configs w)(a := (configs w a)\<lparr>env := E\<rparr>),
          trace := trace w @
            [Log_error ''mcp server {} environment variable {} is not set'' ['''', k']]\<rparr>,
        Inl (SystemExit 1))" by blast
  then show "\<exists>w1 k. Client_init X w nm a = (w1, Inl (SystemExit 1))
         \<and> trace w1 = trace w @
             [Log_error ''mcp server {} environment variable {} is not set'' ['''', k]]"
    by simp
next
  assume "\<forall>k. map_of (env (configs w a)) k = Some '''' \<longrightarrow>
            (\<exists>v. getenv X k = Some v \<and> v \<noteq> '''')"
  from Client_init_success [OF this, of nm] obtain E where
    E: "Client_init X w nm a =
               (w\<lparr>configs := (configs w)(a := (configs w a)\<lparr>env := E\<rparr>)\<rparr>,
                Inr \<lparr>name = nm, server = a,
                     server_params = \<lparr>sp_command = command (configs w a),
                                      sp_args = args (configs w a), sp_env = E\<rparr>,
                     u_session = None, u_tools = [],
                     u_read_stream = None, u_write_stream = None\<rparr>)"
       "map_of E = (\<lambda>k. if map_of (env (configs w a)) k = Some ''''
                               then getenv X k else map_of (env (configs w a)) k)"
    by blast
  show "\<exists>w1 c. Client_init X w nm a = (w1, Inr c)
         \<and> trace w1 = trace w
         \<and> (\<forall>k. map_of (env (configs w a)) k = Some '''' \<longrightarrow>
                map_of (sp_env (server_params c)) k = getenv X k)
         \<and> (\<forall>X' w'. trace (fst (create_stdio_streams X' w' c))
                      = trace w' @ [Stdio_client (server_params c)])"
    by (simp add: E create_stdio_streams_def Let_def emit_def split: sum.splits)
qed

theorem init_env_resolution_witness:
  "map_of (env (configs example_world 0)) ''API_KEY'' = Some ''''
   \<and> getenv (externals_with_env Map.empty) ''API_KEY'' = None
   \<and> (\<exists>w1 k. Client_init (externals_with_env Map.empty) example_world ''demo'' 0
                = (w1, Inl (SystemExit 1))
             \<and> trace w1 = trace example_world @
                 [Log_error ''mcp server {} environment variable {} is not set'' ['''', k]])
   \<and> getenv example_externals ''API_KEY'' = Some ''secret''
   \<and> (\<exists>w1 c. Client_init example_externals example_world ''demo'' 0 = (w1, Inr c)
             \<and> trace w1 = trace example_world
             \<and> map_of (sp_env (server_params c)) ''API_KEY'' = Some ''secret'')"
proof -
  have blank: "map_of (env (configs example_world 0)) ''API_KEY'' = Some ''''"
    by (simp add: example_world_def example_server_def)
  have absent: "getenv (externals_with_env Map.empty) ''API_KEY'' = None"
    by (simp add: externals_with_env_def)
  have present: "getenv example_externals ''API_KEY'' = Some ''secret''"
    by (simp add: example_externals_def)
  have h1: "\<exists>k. map_of (env (configs example_world 0)) k = Some '''' \<and>
          (getenv (externals_with_env Map.empty) k = None
           \<or> getenv (externals_with_env Map.empty) k = Some '''')"
    using blank absent by blast
  have h2: "\<forall>k. map_of (env (configs example_world 0)) k = Some '''' \<longrightarrow>
            (\<exists>v. getenv example_externals k = Some v \<and> v \<noteq> '''')"
    by (simp add: example_world_def example_server_def example_externals_def)
  from init_env_resolution [of example_world 0 "externals_with_env Map.empty" "''demo''"] h1
  have f: "\<exists>w1 k. Client_init (externals_with_env Map.empty) example_world ''demo'' 0
                = (w1, Inl (SystemExit 1))
             \<and> trace w1 = trace example_world @
                 [Log_error ''mcp server {} environment variable {} is not set'' ['''', k]]"
    by blast
  from init_env_resolution [of example_world 0 example_externals "''demo''"] h2
  obtain w1 c where
    "Client_init example_externals example_world ''demo'' 0 = (w1, Inr c)"
    "trace w1 = trace example_world"
    "\<forall>k. map_of (env (configs example_world 0)) k = Some '''' \<longrightarrow>
                map_of (sp_env (server_params c)) k = getenv example_externals k"
    by blast
  with blank present have
    "\<exists>w1 c. Client_init example_externals example_world ''demo'' 0 = (w1, Inr c)
             \<and> trace w1 = trace example_world
             \<and> map_of (sp_env (server_params c)) ''API_KEY'' = Some ''secret''"
    by auto
  with blank absent present f show ?thesis by blast
qed

text \<open>
  The claim as the specification states it fails when the variable is present in the
  process environment with the empty string as its value: the constructor exits.
\<close>

theorem init_blank_but_set_counterexample:
  "map_of (env (configs example_world 0)) ''API_KEY'' = Some ''''
   \<and> getenv (externals_with_env [''API_KEY'' \<mapsto> '''']) ''API_KEY'' = Some ''''
   \<and> Client_init (externals_with_env [''API_KEY'' \<mapsto> '''']) example_world ''demo'' 0
     = (emit (Log_error ''mcp server {} environment variable {} is not set'' ['''', ''API_KEY''])
          example_world,
        Inl (SystemExit 1))"
  by (simp add: Client_init_def emit_def externals_with_env_def example_externals_def
      example_world_def example_server_def)

text \<open>The loop, entry by entry, on a dictionary whose keys are distinct.\<close>

lemma fst_written_back: "fst (written_back X kv) = fst kv"
  by (cases kv) (simp split: option.splits)

lemma lookup_after_seen:
  "key \<notin> fst ` set seen \<Longrightarrow> map_of (seen @ (key, val) # rest) key = Some val"
  by (induction seen) auto

lemma update_after_seen:
  "key \<notin> fst ` set seen \<Longrightarrow>
   AList.update key e (seen @ (key, val) # rest) = seen @ (key, e) # rest"
  by (induction seen) auto

lemma same_env:
  "env (configs w a) = E \<Longrightarrow> w\<lparr>configs := (configs w)(a := (configs w a)\<lparr>env := E\<rparr>)\<rparr> = w"
  by auto

text \<open>One visit of the loop that does not exit.\<close>

lemma init_env_loop_visit:
  assumes "env (configs w a) = seen @ (key, val) # rest"
    and "key \<notin> fst ` set seen"
    and "snd (written_back X (key, val)) \<noteq> ''''"
  shows "init_env_loop X a (key # keys) w =
           init_env_loop X a keys
             (w\<lparr>configs := (configs w)
                  (a := (configs w a)\<lparr>env := seen @ written_back X (key, val) # rest\<rparr>)\<rparr>)"
proof (cases "val = ''''")
  case False
  have same: "w\<lparr>configs := (configs w)(a := (configs w a)\<lparr>env := seen @ (key, val) # rest\<rparr>)\<rparr> = w"
    using assms(1) by (rule same_env)
  have look: "map_of (env (configs w a)) key = Some val"
    unfolding assms(1) by (rule lookup_after_seen [OF assms(2)])
  show ?thesis using False by (simp add: look same)
next
  case True
  with assms(3) obtain e where e: "getenv X key = Some e" "e \<noteq> ''''"
    by (auto split: option.splits if_splits)
  have look: "map_of (env (configs w a)) key = Some val"
    unfolding assms(1) by (rule lookup_after_seen [OF assms(2)])
  have upd: "set_env_item a key e w =
          w\<lparr>configs := (configs w)(a := (configs w a)\<lparr>env := seen @ (key, e) # rest\<rparr>)\<rparr>"
    using assms(1,2) by (simp add: set_env_item_def update_after_seen)
  have look1: "map_of (env (configs (set_env_item a key e w) a)) key = Some e"
    unfolding upd using lookup_after_seen [OF assms(2), of e rest] by (simp del: map_of_append)
  have "init_env_loop X a (key # keys) w = init_env_loop X a keys (set_env_item a key e w)"
    using True e by (simp add: look look1)
  then show ?thesis using True e by (simp add: upd)
qed

lemma init_env_loop_all_written_back:
  assumes "env (configs w a) = seen @ todo"
    and "distinct (map fst (seen @ todo))"
    and "\<forall>kv\<in>set todo. snd (written_back X kv) \<noteq> ''''"
  shows "init_env_loop X a (map fst todo) w =
           (w\<lparr>configs := (configs w)
                (a := (configs w a)\<lparr>env := seen @ map (written_back X) todo\<rparr>)\<rparr>,
            Inr ())"
  using assms
proof (induction todo arbitrary: seen w)
  case Nil
  have same: "w\<lparr>configs := (configs w)(a := (configs w a)\<lparr>env := seen\<rparr>)\<rparr> = w"
    using Nil.prems(1) by (intro same_env) simp
  show ?case by (simp only: list.map append_Nil2 init_env_loop.simps same)
next
  case (Cons kv todo)
  obtain key val where kv: "kv = (key, val)" by (cases kv)
  let ?w1 = "w\<lparr>configs := (configs w)
                (a := (configs w a)\<lparr>env := seen @ written_back X (key, val) # todo\<rparr>)\<rparr>"
  have fresh: "key \<notin> fst ` set seen" using Cons.prems(2) kv by auto
  have ok: "snd (written_back X (key, val)) \<noteq> ''''" using Cons.prems(3) kv by simp
  have e0: "env (configs w a) = seen @ (key, val) # todo" using Cons.prems(1) kv by simp
  have e1: "env (configs ?w1 a) = (seen @ [written_back X (key, val)]) @ todo" by simp
  have d1: "distinct (map fst ((seen @ [written_back X (key, val)]) @ todo))"
    using Cons.prems(2) kv by (simp add: fst_written_back del: written_back.simps)
  have r1: "\<forall>kv\<in>set todo. snd (written_back X kv) \<noteq> ''''" using Cons.prems(3) by simp
  have "init_env_loop X a (map fst (kv # todo)) w = init_env_loop X a (key # map fst todo) w"
    by (simp only: kv list.map fst_conv)
  also have "\<dots> = init_env_loop X a (map fst todo) ?w1"
    by (rule init_env_loop_visit [OF e0 fresh ok])
  also have "\<dots> =
          (?w1\<lparr>configs := (configs ?w1)
                (a := (configs ?w1 a)\<lparr>env := (seen @ [written_back X (key, val)])
                                              @ map (written_back X) todo\<rparr>)\<rparr>,
           Inr ())"
    by (rule Cons.IH [OF e1 d1 r1])
  also have "\<dots> =
          (w\<lparr>configs := (configs w)
                (a := (configs w a)\<lparr>env := seen @ map (written_back X) (kv # todo)\<rparr>)\<rparr>,
           Inr ())"
    by (simp add: kv)
  finally show ?case .
qed

lemma init_env_loop_exits_at_first:
  assumes "env (configs w a) = seen @ pre @ (k, '''') # post"
    and "distinct (map fst (seen @ pre @ (k, '''') # post))"
    and "\<forall>kv\<in>set pre. snd (written_back X kv) \<noteq> ''''"
    and "getenv X k = None \<or> getenv X k = Some ''''"
  shows "init_env_loop X a (map fst (pre @ (k, '''') # post)) w =
           (w\<lparr>configs := (configs w)
                (a := (configs w a)\<lparr>env := seen @ map (written_back X) pre @ (k, '''') # post\<rparr>),
              trace := trace w @
                [Log_error ''mcp server {} environment variable {} is not set'' ['''', k]]\<rparr>,
            Inl (SystemExit 1))"
  using assms(1,2,3)
proof (induction pre arbitrary: seen w)
  case Nil
  have fresh: "k \<notin> fst ` set seen" using Nil.prems(2) by auto
  have e0: "env (configs w a) = seen @ (k, '''') # post" using Nil.prems(1) by simp
  have same: "w\<lparr>configs := (configs w)(a := (configs w a)\<lparr>env := seen @ (k, '''') # post\<rparr>)\<rparr> = w"
    using e0 by (rule same_env)
  have look: "map_of (env (configs w a)) k = Some ''''"
    unfolding e0 by (rule lookup_after_seen [OF fresh])
  have run: "init_env_loop X a (map fst ([] @ (k, '''') # post)) w =
          (w\<lparr>trace := trace w @
                [Log_error ''mcp server {} environment variable {} is not set'' ['''', k]]\<rparr>,
           Inl (SystemExit 1))"
    using assms(4) by (auto simp: look emit_def)
  show ?case unfolding run by (simp only: list.map append_Nil same)
next
  case (Cons kv pre)
  obtain key val where kv: "kv = (key, val)" by (cases kv)
  let ?rest = "pre @ (k, '''') # post"
  let ?w1 = "w\<lparr>configs := (configs w)
                (a := (configs w a)\<lparr>env := seen @ written_back X (key, val) # ?rest\<rparr>)\<rparr>"
  have fresh: "key \<notin> fst ` set seen" using Cons.prems(2) kv by auto
  have ok: "snd (written_back X (key, val)) \<noteq> ''''" using Cons.prems(3) kv by simp
  have e0: "env (configs w a) = seen @ (key, val) # ?rest" using Cons.prems(1) kv by simp
  have e1: "env (configs ?w1 a) = (seen @ [written_back X (key, val)]) @ ?rest" by simp
  have d1: "distinct (map fst ((seen @ [written_back X (key, val)]) @ ?rest))"
    using Cons.prems(2) kv by (simp add: fst_written_back del: written_back.simps)
  have r1: "\<forall>kv\<in>set pre. snd (written_back X kv) \<noteq> ''''" using Cons.prems(3) by simp
  have "init_env_loop X a (map fst ((kv # pre) @ (k, '''') # post)) w
          = init_env_loop X a (key # map fst ?rest) w"
    by (simp only: kv list.map fst_conv append_Cons)
  also have "\<dots> = init_env_loop X a (map fst ?rest) ?w1"
    by (rule init_env_loop_visit [OF e0 fresh ok])
  also have "\<dots> =
          (?w1\<lparr>configs := (configs ?w1)
                (a := (configs ?w1 a)\<lparr>env := (seen @ [written_back X (key, val)])
                                              @ map (written_back X) pre @ (k, '''') # post\<rparr>),
              trace := trace ?w1 @
                [Log_error ''mcp server {} environment variable {} is not set'' ['''', k]]\<rparr>,
           Inl (SystemExit 1))"
    by (rule Cons.IH [OF e1 d1 r1])
  also have "\<dots> =
          (w\<lparr>configs := (configs w)
                (a := (configs w a)\<lparr>env := seen @ map (written_back X) (kv # pre)
                                              @ (k, '''') # post\<rparr>),
              trace := trace w @
                [Log_error ''mcp server {} environment variable {} is not set'' ['''', k]]\<rparr>,
           Inl (SystemExit 1))"
    by (simp add: kv)
  finally show ?case .
qed

text \<open>
  Claim C10, as amended. The constructor changes the caller's configuration object in
  place, entry by entry in the order of \<open>env\<close> (whose keys are distinct, as those of a
  dictionary are). When every entry is non-blank or can be resolved (its variable is set
  to a non-empty value in the process environment), the constructor returns a client
  that refers to the caller's object, and the object's \<open>env\<close> is the old one with every
  blank value replaced by the variable's value: no entry is blank any more. When the
  first entry that cannot be resolved is \<open>k\<close>, after the entries \<open>pre\<close> and before the
  entries \<open>post\<close>, the constructor logs \<open>k\<close> and exits with status 1; the values of \<open>pre\<close>
  have been written back, \<open>k\<close> and \<open>post\<close> are as they were. In both cases only the
  \<open>env\<close> field of that one object changes: its other fields and the other objects are
  the same.
\<close>

theorem init_writes_back_in_order:
  assumes "distinct (map fst (env (configs w a)))"
  shows "((\<forall>kv\<in>set (env (configs w a)). snd (written_back X kv) \<noteq> '''') \<longrightarrow>
            (\<exists>c. Client_init X w nm a =
                   (w\<lparr>configs := (configs w)
                        (a := (configs w a)
                           \<lparr>env := map (written_back X) (env (configs w a))\<rparr>)\<rparr>,
                    Inr c)
                \<and> server c = a
                \<and> (\<forall>kv\<in>set (map (written_back X) (env (configs w a))). snd kv \<noteq> '''')))
         \<and> (\<forall>pre k post.
               env (configs w a) = pre @ (k, '''') # post
               \<and> (\<forall>kv\<in>set pre. snd (written_back X kv) \<noteq> '''')
               \<and> (getenv X k = None \<or> getenv X k = Some '''') \<longrightarrow>
               Client_init X w nm a =
                 (w\<lparr>configs := (configs w)
                      (a := (configs w a)
                         \<lparr>env := map (written_back X) pre @ (k, '''') # post\<rparr>),
                    trace := trace w @
                      [Log_error ''mcp server {} environment variable {} is not set''
                         ['''', k]]\<rparr>,
                  Inl (SystemExit 1)))"
proof (intro conjI allI impI)
  assume ok: "\<forall>kv\<in>set (env (configs w a)). snd (written_back X kv) \<noteq> ''''"
  have e: "env (configs w a) = [] @ env (configs w a)" by simp
  have d: "distinct (map fst ([] @ env (configs w a)))" using assms by simp
  have "init_env_loop X a (map fst (env (configs w a))) w =
          (w\<lparr>configs := (configs w)
                (a := (configs w a)
                   \<lparr>env := [] @ map (written_back X) (env (configs w a))\<rparr>)\<rparr>, Inr ())"
    by (rule init_env_loop_all_written_back [OF e d ok])
  then show "\<exists>c. Client_init X w nm a =
                   (w\<lparr>configs := (configs w)
                        (a := (configs w a)
                           \<lparr>env := map (written_back X) (env (configs w a))\<rparr>)\<rparr>,
                    Inr c)
                \<and> server c = a
                \<and> (\<forall>kv\<in>set (map (written_back X) (env (configs w a))). snd kv \<noteq> '''')"
    using ok by (simp add: Client_init_def)
next
  fix pre k post
  assume h: "env (configs w a) = pre @ (k, '''') # post
               \<and> (\<forall>kv\<in>set pre. snd (written_back X kv) \<noteq> '''')
               \<and> (getenv X k = None \<or> getenv X k = Some '''')"
  have e: "env (configs w a) = [] @ pre @ (k, '''') # post" using h by simp
  have d: "distinct (map fst ([] @ pre @ (k, '''') # post))" using assms h by simp
  have "init_env_loop X a (map fst (pre @ (k, '''') # post)) w =
           (w\<lparr>configs := (configs w)
                (a := (configs w a)\<lparr>env := [] @ map (written_back X) pre @ (k, '''') # post\<rparr>),
              trace := trace w @
                [Log_error ''mcp server {} environment variable {} is not set'' ['''', k]]\<rparr>,
            Inl (SystemExit 1))"
    using h by (intro init_env_loop_exits_at_first [OF e d]) simp_all
  then show "Client_init X w nm a =
                 (w\<lparr>configs := (configs w)
                      (a := (configs w a)
                         \<lparr>env := map (written_back X) pre @ (k, '''') # post\<rparr>),
                    trace := trace w @
                      [Log_error ''mcp server {} environment variable {} is not set''
                         ['''', k]]\<rparr>,
                  Inl (SystemExit 1))"
    using h by (simp add: Client_init_def)
qed

theorem init_writes_back_in_order_witness:
  "distinct (map fst (env (configs example_world 0)))
   \<and> (\<exists>c. Client_init example_externals example_world ''demo'' 0
           = (example_world\<lparr>configs := (configs example_world)
                (0 := example_server\<lparr>env := [(''API_KEY'', ''secret''), (''MODE'', ''fast'')]\<rparr>)\<rparr>,
              Inr c)
         \<and> server c = 0)
   \<and> distinct (map fst (env (configs
        (example_world_env [(''A_VAR'', ''''), (''B_VAR'', ''''), (''C_VAR'', '''')]) 0)))
   \<and> Client_init (externals_with_env [''A_VAR'' \<mapsto> ''x'', ''C_VAR'' \<mapsto> ''y''])
       (example_world_env [(''A_VAR'', ''''), (''B_VAR'', ''''), (''C_VAR'', '''')]) ''demo'' 0
     = ((example_world_env [(''A_VAR'', ''''), (''B_VAR'', ''''), (''C_VAR'', '''')])
          \<lparr>configs := (configs
               (example_world_env [(''A_VAR'', ''''), (''B_VAR'', ''''), (''C_VAR'', '''')]))
             (0 := example_server
                \<lparr>env := [(''A_VAR'', ''x''), (''B_VAR'', ''''), (''C_VAR'', '''')]\<rparr>),
           trace := [Log_error ''mcp server {} environment variable {} is not set''
                      ['''', ''B_VAR'']]\<rparr>,
        Inl (SystemExit 1))"
proof -
  have d1: "distinct (map fst (env (configs example_world 0)))"
    by (simp add: example_world_def example_server_def)
  have d2: "distinct (map fst (env (configs
        (example_world_env [(''A_VAR'', ''''), (''B_VAR'', ''''), (''C_VAR'', '''')]) 0)))"
    by (simp add: example_world_env_def)
  have ok: "\<forall>kv\<in>set (env (configs example_world 0)).
              snd (written_back example_externals kv) \<noteq> ''''"
    by (simp add: example_world_def example_server_def example_externals_def)
  from init_writes_back_in_order [OF d1, of example_externals "''demo''"] ok
  have first: "\<exists>c. Client_init example_externals example_world ''demo'' 0
           = (example_world\<lparr>configs := (configs example_world)
                (0 := example_server\<lparr>env := [(''API_KEY'', ''secret''), (''MODE'', ''fast'')]\<rparr>)\<rparr>,
              Inr c)
         \<and> server c = 0"
    by (simp add: example_world_def example_server_def example_externals_def)
  have h: "env (configs (example_world_env [(''A_VAR'', ''''), (''B_VAR'', ''''), (''C_VAR'', '''')]) 0)
             = [(''A_VAR'', '''')] @ (''B_VAR'', '''') # [(''C_VAR'', '''')]
           \<and> (\<forall>kv\<in>set [(''A_VAR'', '''')].
                 snd (written_back (externals_with_env [''A_VAR'' \<mapsto> ''x'', ''C_VAR'' \<mapsto> ''y'']) kv)
                   \<noteq> '''')
           \<and> (getenv (externals_with_env [''A_VAR'' \<mapsto> ''x'', ''C_VAR'' \<mapsto> ''y'']) ''B_VAR'' = None
              \<or> getenv (externals_with_env [''A_VAR'' \<mapsto> ''x'', ''C_VAR'' \<mapsto> ''y'']) ''B_VAR''
                   = Some '''')"
    by (simp add: example_world_env_def externals_with_env_def)
  from init_writes_back_in_order [OF d2,
      of "externals_with_env [''A_VAR'' \<mapsto> ''x'', ''C_VAR'' \<mapsto> ''y'']" "''demo''"] h
  have "Client_init (externals_with_env [''A_VAR'' \<mapsto> ''x'', ''C_VAR'' \<mapsto> ''y''])
       (example_world_env [(''A_VAR'', ''''), (''B_VAR'', ''''), (''C_VAR'', '''')]) ''demo'' 0
     = ((example_world_env [(''A_VAR'', ''''), (''B_VAR'', ''''), (''C_VAR'', '''')])
          \<lparr>configs := (configs
              (example_world_env [(''A_VAR'', ''''), (''B_VAR'', ''''), (''C_VAR'', '''')]))
              (0 := (configs
                  (example_world_env [(''A_VAR'', ''''), (''B_VAR'', ''''), (''C_VAR'', '''')]) 0)
                 \<lparr>env := map (written_back
                     (externals_with_env [''A_VAR'' \<mapsto> ''x'', ''C_VAR'' \<mapsto> ''y'']))
                     [(''A_VAR'', '''')] @ (''B_VAR'', '''') # [(''C_VAR'', '''')]\<rparr>),
            trace := trace
              (example_world_env [(''A_VAR'', ''''), (''B_VAR'', ''''), (''C_VAR'', '''')]) @
              [Log_error ''mcp server {} environment variable {} is not set''
                 ['''', ''B_VAR'']]\<rparr>,
        Inl (SystemExit 1))"
    by blast
  then have second: "Client_init (externals_with_env [''A_VAR'' \<mapsto> ''x'', ''C_VAR'' \<mapsto> ''y''])
       (example_world_env [(''A_VAR'', ''''), (''B_VAR'', ''''), (''C_VAR'', '''')]) ''demo'' 0
     = ((example_world_env [(''A_VAR'', ''''), (''B_VAR'', ''''), (''C_VAR'', '''')])
          \<lparr>configs := (configs
               (example_world_env [(''A_VAR'', ''''), (''B_VAR'', ''''), (''C_VAR'', '''')]))
             (0 := example_server
                \<lparr>env := [(''A_VAR'', ''x''), (''B_VAR'', ''''), (''C_VAR'', '''')]\<rparr>),
           trace := [Log_error ''mcp server {} environment variable {} is not set''
                      ['''', ''B_VAR'']]\<rparr>,
        Inl (SystemExit 1))"
    by (simp add: example_world_env_def externals_with_env_def)
  from d1 first d2 second show ?thesis by blast
qed

text \<open>
  The claim as stated fails for a blank entry that comes after one that cannot be
  resolved: \<open>A_VAR\<close> is blank and set in the process environment, yet after the
  constructor has exited at \<open>B_VAR\<close> the caller's object still holds the blank value.
\<close>

theorem init_no_write_back_counterexample:
  "map_of (env (configs (example_world_env [(''B_VAR'', ''''), (''A_VAR'', '''')]) 0)) ''A_VAR''
     = Some ''''
   \<and> getenv (externals_with_env [''A_VAR'' \<mapsto> ''x'']) ''A_VAR'' = Some ''x''
   \<and> Client_init (externals_with_env [''A_VAR'' \<mapsto> ''x''])
       (example_world_env [(''B_VAR'', ''''), (''A_VAR'', '''')]) ''demo'' 0
     = (emit (Log_error ''mcp server {} environment variable {} is not set'' ['''', ''B_VAR''])
          (example_world_env [(''B_VAR'', ''''), (''A_VAR'', '''')]),
        Inl (SystemExit 1))
   \<and> map_of (env (configs
        (fst (Client_init (externals_with_env [''A_VAR'' \<mapsto> ''x''])
                (example_world_env [(''B_VAR'', ''''), (''A_VAR'', '''')]) ''demo'' 0)) 0))
        ''A_VAR'' = Some ''''"
  by (simp add: Client_init_def emit_def externals_with_env_def example_externals_def
      example_world_env_def)

end
